theory Spec2Isabelle
  imports Main
begin

section \<open>The SQLite-backed server (src/unnamed/part_000)\<close>

subsection \<open>Rate limiter\<close>

text \<open>
  \<^verbatim>\<open>const bucket = new Map()\<close> maps a client key to \<^verbatim>\<open>{ count, reset }\<close>.
  Times are the integer milliseconds of \<^verbatim>\<open>Date.now()\<close>; counts and limits are the
  integers the routes pass (JavaScript numbers below \<open>2^53\<close>, where \<^verbatim>\<open>++\<close> is exact).
\<close>

record rate_bucket =
  count :: int
  reset :: int

type_synonym buckets = "string \<rightharpoonup> rate_bucket"

text \<open>
  \<^verbatim>\<open>function allow(ip, limit = 30, windowMs = 60_000)\<close>. The current time is an
  argument; the result is the returned boolean and the map after \<^verbatim>\<open>bucket.set\<close>.
  Every caller passes both \<open>limit\<close> and \<open>windowMs\<close>.
\<close>

definition allow :: "buckets \<Rightarrow> int \<Rightarrow> string \<Rightarrow> int \<Rightarrow> int \<Rightarrow> bool \<times> buckets" where
  "allow bucket now ip limit windowMs =
     (let b0 = (case bucket ip of
                  Some b \<Rightarrow> b
                | None \<Rightarrow> \<lparr>count = 0, reset = now + windowMs\<rparr>);
          b1 = (if now > reset b0 then b0\<lparr>count := 0, reset := now + windowMs\<rparr> else b0);
          b2 = b1\<lparr>count := count b1 + 1\<rparr>
      in (count b2 \<le> limit, bucket(ip \<mapsto> b2)))"

text \<open>
  The contract of section 4.1 of the specification, in its words: if the current time
  exceeds \<open>resetAt\<close>, reset \<open>count\<close> to 0 and set \<open>resetAt = now + windowMs\<close>; increment
  \<open>count\<close>; return \<open>count \<le> limit\<close>. It is stated for a key that has a bucket.
\<close>

definition allow_spec :: "rate_bucket \<Rightarrow> int \<Rightarrow> int \<Rightarrow> int \<Rightarrow> bool \<times> rate_bucket" where
  "allow_spec b now limit windowMs =
     (let c = (if reset b < now then 0 else count b);
          r = (if reset b < now then now + windowMs else reset b)
      in (c + 1 \<le> limit, \<lparr>count = c + 1, reset = r\<rparr>))"

text \<open>Successive calls of \<open>allow\<close> for one key, at the given times, oldest first.\<close>

fun allow_calls :: "buckets \<Rightarrow> string \<Rightarrow> int \<Rightarrow> int \<Rightarrow> int list \<Rightarrow> bool list \<times> buckets" where
  "allow_calls bucket ip limit windowMs [] = ([], bucket)"
| "allow_calls bucket ip limit windowMs (t # ts) =
     (case allow bucket t ip limit windowMs of
        (r, bucket') \<Rightarrow>
          (case allow_calls bucket' ip limit windowMs ts of
             (rs, bucket'') \<Rightarrow> (r # rs, bucket'')))"

subsection \<open>Strings\<close>

text \<open>
  Strings are byte strings, exact for ASCII text. \<open>trim\<close> removes the ASCII white
  space and line terminators of \<^verbatim>\<open>String.prototype.trim\<close> at both ends, and
  \<open>toLowerCase\<close> folds the letters A to Z; a JavaScript string is truthy when it is
  not empty.
\<close>

definition js_whitespace :: "char \<Rightarrow> bool" where
  "js_whitespace c = (of_char c \<in> {9, 10, 11, 12, 13, 32 :: nat})"

definition trim :: "string \<Rightarrow> string" where
  "trim s = rev (dropWhile js_whitespace (rev (dropWhile js_whitespace s)))"

definition lower_char :: "char \<Rightarrow> char" where
  "lower_char c =
     (if 65 \<le> (of_char c :: nat) \<and> (of_char c :: nat) \<le> 90
      then char_of (of_char c + 32 :: nat) else c)"

definition toLowerCase :: "string \<Rightarrow> string" where
  "toLowerCase s = map lower_char s"

text \<open>
  \<^verbatim>\<open>if (x)\<close> on a member that is a string or missing: it is present and not empty.
\<close>

definition truthy :: "string option \<Rightarrow> bool" where
  "truthy x = (case x of None \<Rightarrow> False | Some v \<Rightarrow> v \<noteq> [])"

subsection \<open>Configuration, requests and responses\<close>

text \<open>
  The values destructured from \<^verbatim>\<open>process.env\<close>, after the defaults of the
  destructuring pattern. \<open>ADMIN_BYPASS_TOKEN\<close> has no default and is \<open>None\<close> when unset.
\<close>

record config =
  ADMIN_BYPASS_TOKEN :: "string option"
  CHAT_MODEL :: string
  TTS_ENGINE :: string
  TTS_VOICE :: string

text \<open>
  What the middlewares read of an Express request: the \<^verbatim>\<open>access\<close> cookie, the
  \<^verbatim>\<open>x-admin\<close> and \<^verbatim>\<open>x-forwarded-for\<close> headers and the socket's remote address;
  \<open>None\<close> is \<^verbatim>\<open>undefined\<close>.
\<close>

record request =
  cookie_access :: "string option"
  x_admin :: "string option"
  x_forwarded_for :: "string option"
  remote_address :: "string option"

record chat_message =
  role :: string
  content :: string

text \<open>
  The body of a chat completion, as far as the handlers read it: each member may be
  missing (\<open>None\<close>, which also stands for \<^verbatim>\<open>null\<close>). Token counts are numbers.
  \<open>other_members\<close> carries whatever else the body holds (the provider's \<^verbatim>\<open>error\<close>
  object, for instance), by name and serialized value.
\<close>

record choice_message =
  message_content :: "string option"

record choice =
  message :: "choice_message option"

record token_usage =
  prompt_tokens :: "nat option"
  completion_tokens :: "nat option"

record chat_data =
  choices :: "choice list option"
  usage :: "token_usage option"
  other_members :: "(string \<times> string) list"

record settings =
  model :: string
  tts_engine :: string
  tts_voice :: string
  system_prompt :: string

text \<open>A row of \<^verbatim>\<open>chat_logs\<close>; \<open>messages\<close> is the JSON text of the message list.\<close>

record log_row =
  log_id :: nat
  actor :: string
  scope :: string
  messages :: string
  reply :: string
  tokens_prompt :: "nat option"
  tokens_completion :: "nat option"
  created_at :: int

text \<open>
  The JSON bodies the routes send: \<^verbatim>\<open>{ error, detail? }\<close>, the settings row,
  \<^verbatim>\<open>{ reply, usage, created_at }\<close>, the upstream body passed on by
  \<^verbatim>\<open>res.json(data)\<close>, the log rows, audio bytes and plain text.
\<close>

datatype body =
    Error string "string option"
  | SettingsRow settings
  | ChatReply string token_usage int
  | Forwarded "chat_data option"
  | LogRows "log_row list"
  | Audio string
  | Text string

datatype response = Response nat body

text \<open>What the servers send upstream: the chat payload and the speech payload.\<close>

record chat_payload =
  payload_model :: string
  payload_messages :: "chat_message list"

record speech_payload =
  speech_voice :: string
  speech_input :: string

datatype upstream_call = ChatCall chat_payload | SpeechCall speech_payload

text \<open>
  The outcome of \<^verbatim>\<open>await fetch(...)\<close> followed by \<^verbatim>\<open>await r.json()\<close> (chat) or by
  reading the body (speech): either one of them rejects, with the text of the exception,
  or there is a status and a body. \<^verbatim>\<open>r.ok\<close> is a status from 200 to 299.
\<close>

datatype chat_result = Threw string | Responded nat "chat_data option"

datatype speech_result = SpeechThrew string | SpeechResponded nat string

definition ok :: "nat \<Rightarrow> bool" where
  "ok status = (200 \<le> status \<and> status \<le> 299)"

datatype jwt_payload = Payload (claim_role: "string option")

text \<open>
  The libraries and the provider, as functions: \<open>jwt_decode\<close> is
  \<^verbatim>\<open>jwt.verify\<close> with the configured secret and issuer, or \<^verbatim>\<open>jwt.decode\<close> when no
  secret is set (\<open>None\<close> when it throws or returns \<^verbatim>\<open>null\<close>); \<open>stringify\<close> is
  \<^verbatim>\<open>JSON.stringify\<close> on a message list; the other two are the provider's answers.
\<close>

record platform =
  jwt_decode :: "string \<Rightarrow> jwt_payload option"
  stringify :: "chat_message list \<Rightarrow> string"
  chat_completions :: "chat_payload \<Rightarrow> chat_result"
  audio_speech :: "speech_payload \<Rightarrow> speech_result"

text \<open>
  The state of the process: the limiter's map, the single row of \<^verbatim>\<open>chat_settings\<close>,
  the rows of \<^verbatim>\<open>chat_logs\<close> in insertion order with the last id given out by
  \<^verbatim>\<open>autoincrement\<close>, and the requests sent to the provider so far, oldest first.
\<close>

record server =
  bucket :: buckets
  chat_settings :: settings
  chat_logs :: "log_row list"
  log_seq :: nat
  upstream_calls :: "upstream_call list"

text \<open>
  The state after a first start: no bucket, the settings row with the defaults of the
  table's columns, no log row, nothing sent.
\<close>

definition startup :: server where
  "startup =
     \<lparr>bucket = Map.empty,
      chat_settings = \<lparr>model = ''gpt-4o-mini'', tts_engine = ''openai'',
                        tts_voice = ''alloy'', system_prompt = []\<rparr>,
      chat_logs = [], log_seq = 0, upstream_calls = []\<rparr>"

subsection \<open>Middlewares\<close>

datatype 'r outcome = Next | Respond 'r

type_synonym ('s, 'r) middleware = "'s \<Rightarrow> 'r outcome \<times> 's"

type_synonym handler = "server \<Rightarrow> response \<times> server"

text \<open>
  \<^verbatim>\<open>app.get(path, m1, m2, handler)\<close>: each middleware either answers, which ends the
  request, or calls \<^verbatim>\<open>next()\<close>.
\<close>

fun run_chain :: "('s, 'r) middleware list \<Rightarrow> ('s \<Rightarrow> 'r \<times> 's) \<Rightarrow> 's \<Rightarrow> 'r \<times> 's" where
  "run_chain [] h st = h st"
| "run_chain (m # ms) h st =
     (case m st of
        (Respond r, st') \<Rightarrow> (r, st')
      | (Next, st') \<Rightarrow> run_chain ms h st')"

text \<open>
  \<^verbatim>\<open>req.headers['x-forwarded-for']?.split(',')[0]?.trim() || req.socket.remoteAddress || 'unknown'\<close>
\<close>

definition client_ip :: "request \<Rightarrow> string" where
  "client_ip req =
     (let forwarded = (case x_forwarded_for req of
                         None \<Rightarrow> []
                       | Some h \<Rightarrow> trim (takeWhile (\<lambda>c. c \<noteq> CHR '','') h))
      in if forwarded \<noteq> [] then forwarded
         else (case remote_address req of
                 None \<Rightarrow> ''unknown''
               | Some a \<Rightarrow> if a \<noteq> [] then a else ''unknown''))"


definition getRoleFromCookie :: "platform \<Rightarrow> request \<Rightarrow> string option" where
  "getRoleFromCookie pf req =
     (case cookie_access req of
        None \<Rightarrow> None
      | Some token \<Rightarrow>
          if token = [] then None
          else (case jwt_decode pf token of
                  None \<Rightarrow> None
                | Some decoded \<Rightarrow>
                    (case claim_role decoded of
                       None \<Rightarrow> None
                     | Some r \<Rightarrow> if r \<noteq> [] then Some r else None)))"

definition requireSuperadmin :: "config \<Rightarrow> platform \<Rightarrow> request \<Rightarrow> response outcome" where
  "requireSuperadmin cfg pf req =
     (let role = getRoleFromCookie pf req in
      if role = Some ''superadmin'' then Next
      else if (case ADMIN_BYPASS_TOKEN cfg of
                 None \<Rightarrow> False
               | Some token \<Rightarrow> token \<noteq> [] \<and> x_admin req = Some token)
      then Next
      else Respond (Response 401 (Error ''Superadmin required'' None)))"


text \<open>A middleware that reads only the request leaves the state as it is.\<close>

definition stateless :: "'r outcome \<Rightarrow> ('s, 'r) middleware" where
  "stateless out st = (out, st)"

text \<open>
  The bypass of the specification: a secret is configured, and the \<^verbatim>\<open>x-admin\<close>
  header carries exactly that secret.
\<close>

definition presents_bypass :: "config \<Rightarrow> request \<Rightarrow> bool" where
  "presents_bypass cfg req =
     (case ADMIN_BYPASS_TOKEN cfg of
        None \<Rightarrow> False
      | Some token \<Rightarrow> token \<noteq> [] \<and> x_admin req = Some token)"

subsection \<open>Settings routes\<close>

text \<open>
  The members of the body of \<^verbatim>\<open>PUT /api/super/settings\<close>. Each is a string, or
  \<open>None\<close> when the member is missing or \<^verbatim>\<open>null\<close>: better-sqlite3 binds both
  \<^verbatim>\<open>undefined\<close> and \<^verbatim>\<open>null\<close> as SQL \<^verbatim>\<open>NULL\<close>. A missing body is the record
  with no member.
\<close>

record settings_body =
  body_model :: "string option"
  body_tts_engine :: "string option"
  body_tts_voice :: "string option"
  body_system_prompt :: "string option"

text \<open>SQL \<^verbatim>\<open>coalesce(@x, x)\<close>: the bound value unless it is \<^verbatim>\<open>NULL\<close>.\<close>

definition coalesce :: "'a option \<Rightarrow> 'a \<Rightarrow> 'a" where
  "coalesce bound stored = (case bound of None \<Rightarrow> stored | Some v \<Rightarrow> v)"


definition put_settings :: "settings_body \<Rightarrow> handler" where
  "put_settings b st =
     (let row = chat_settings st;
          row' = \<lparr>model = coalesce (body_model b) (model row),
                  tts_engine = coalesce (body_tts_engine b) (tts_engine row),
                  tts_voice = coalesce (body_tts_voice b) (tts_voice row),
                  system_prompt = coalesce (body_system_prompt b) (system_prompt row)\<rparr>
      in (Response 200 (SettingsRow row'), st\<lparr>chat_settings := row'\<rparr>))"

text \<open>A sequence of update requests, oldest first.\<close>

definition put_settings_all :: "settings_body list \<Rightarrow> server \<Rightarrow> server" where
  "put_settings_all bs st = fold (\<lambda>b s. snd (put_settings b s)) bs st"


definition route_put_settings ::
  "config \<Rightarrow> platform \<Rightarrow> request \<Rightarrow> settings_body \<Rightarrow> handler" where
  "route_put_settings cfg pf req b =
     run_chain [stateless (requireSuperadmin cfg pf req)] (put_settings b)"

subsection \<open>Chat routes\<close>

text \<open>
  The body of a chat request: \<^verbatim>\<open>messages\<close> (an array of messages),
  \<^verbatim>\<open>admin_user\<close> on the superadmin route and \<^verbatim>\<open>user_id\<close> on the user route, each
  \<open>None\<close> when missing.
\<close>

record chat_body =
  body_messages :: "chat_message list option"
  admin_user :: "string option"
  user_id :: "string option"

text \<open>
  \<^verbatim>\<open>const finalMessages = [];
  if (settings?.system_prompt?.trim()) finalMessages.push({ role: 'system', content: settings.system_prompt });
  for (const m of messages) finalMessages.push(m);\<close>
\<close>

definition finalMessages :: "settings \<Rightarrow> chat_message list \<Rightarrow> chat_message list" where
  "finalMessages row msgs =
     (if trim (system_prompt row) \<noteq> []
      then [\<lparr>role = ''system'', content = system_prompt row\<rparr>]
      else []) @ msgs"

text \<open>\<^verbatim>\<open>data?.choices?.[0]?.message?.content ?? ''\<close>\<close>

definition first_content :: "chat_data option \<Rightarrow> string option" where
  "first_content data =
     (case data of
        None \<Rightarrow> None
      | Some d \<Rightarrow>
          (case choices d of
             None \<Rightarrow> None
           | Some cs \<Rightarrow>
               (case cs of
                  [] \<Rightarrow> None
                | c # _ \<Rightarrow>
                    (case message c of
                       None \<Rightarrow> None
                     | Some m \<Rightarrow> message_content m))))"

definition reply_of :: "chat_data option \<Rightarrow> string" where
  "reply_of data = (case first_content data of None \<Rightarrow> [] | Some text \<Rightarrow> text)"

text \<open>\<^verbatim>\<open>data?.usage || {}\<close>\<close>

definition usage_of :: "chat_data option \<Rightarrow> token_usage" where
  "usage_of data =
     (case data of
        None \<Rightarrow> \<lparr>prompt_tokens = None, completion_tokens = None\<rparr>
      | Some d \<Rightarrow>
          (case usage d of
             None \<Rightarrow> \<lparr>prompt_tokens = None, completion_tokens = None\<rparr>
           | Some u \<Rightarrow> u))"

text \<open>\<^verbatim>\<open>usage.prompt_tokens || null\<close>: a count of 0 is stored as \<^verbatim>\<open>NULL\<close>.\<close>

definition or_null :: "nat option \<Rightarrow> nat option" where
  "or_null n = (case n of None \<Rightarrow> None | Some k \<Rightarrow> if k \<noteq> 0 then Some k else None)"

text \<open>
  \<^verbatim>\<open>insert into chat_logs (...) values (...)\<close>: the row gets the next id of the
  \<^verbatim>\<open>autoincrement\<close> sequence and the current time.
\<close>

definition insert_log :: "log_row \<Rightarrow> server \<Rightarrow> server" where
  "insert_log row st =
     st\<lparr>chat_logs := chat_logs st @ [row\<lparr>log_id := Suc (log_seq st)\<rparr>],
        log_seq := Suc (log_seq st)\<rparr>"

text \<open>
  The body of the request to \<^verbatim>\<open>/v1/chat/completions\<close>:
  \<^verbatim>\<open>{ model: settings?.model || CHAT_MODEL, messages: finalMessages, temperature: 0.7 }\<close>.
  The temperature is a constant and is left out.
\<close>

definition chat_request :: "config \<Rightarrow> settings \<Rightarrow> chat_message list \<Rightarrow> chat_payload" where
  "chat_request cfg row msgs =
     \<lparr>payload_model = (if model row \<noteq> [] then model row else CHAT_MODEL cfg),
      payload_messages = finalMessages row msgs\<rparr>"

text \<open>\<^verbatim>\<open>const { messages = [], ... } = req.body || {}\<close>\<close>

definition messages_of :: "chat_body \<Rightarrow> chat_message list" where
  "messages_of b = (case body_messages b of None \<Rightarrow> [] | Some ms \<Rightarrow> ms)"


text \<open>
  The bodies of \<^verbatim>\<open>POST /api/super/chat\<close> and \<^verbatim>\<open>POST /api/chat/user/send\<close> are the
  same text from the read of the settings on, except for the actor and the scope literal
  of the insert; \<open>chat\<close> is that text.
\<close>

definition chat ::
  "config \<Rightarrow> platform \<Rightarrow> int \<Rightarrow> string \<Rightarrow> string \<Rightarrow> chat_message list \<Rightarrow> handler" where
  "chat cfg pf now who tier msgs st =
     (let row = chat_settings st;
          final = finalMessages row msgs;
          payload = chat_request cfg row msgs;
          st1 = st\<lparr>upstream_calls := upstream_calls st @ [ChatCall payload]\<rparr>
      in case chat_completions pf payload of
           Threw e \<Rightarrow> (Response 500 (Error ''chat_failed'' (Some e)), st1)
         | Responded status data \<Rightarrow>
             if \<not> ok status then (Response status (Forwarded data), st1)
             else
               (let text = reply_of data;
                    u = usage_of data;
                    st2 = insert_log
                            \<lparr>log_id = 0, actor = who, scope = tier,
                             messages = stringify pf final, reply = text,
                             tokens_prompt = or_null (prompt_tokens u),
                             tokens_completion = or_null (completion_tokens u),
                             created_at = now\<rparr> st1
                in (Response 200 (ChatReply text u now), st2)))"

definition super_chat :: "config \<Rightarrow> platform \<Rightarrow> int \<Rightarrow> chat_body \<Rightarrow> handler" where
  "super_chat cfg pf now b =
     (let msgs = messages_of b;
          who = (case admin_user b of None \<Rightarrow> ''superadmin'' | Some a \<Rightarrow> a)
      in chat cfg pf now who ''super'' msgs)"

definition user_chat :: "config \<Rightarrow> platform \<Rightarrow> int \<Rightarrow> request \<Rightarrow> chat_body \<Rightarrow> handler" where
  "user_chat cfg pf now req b =
     (let msgs = messages_of b;
          ip = client_ip req;
          who = (case user_id b of
                   None \<Rightarrow> ''ip:'' @ ip
                 | Some u \<Rightarrow> if u \<noteq> [] then ''user:'' @ u else ''ip:'' @ ip)
      in chat cfg pf now who ''user'' msgs)"



subsection \<open>Speech routes\<close>

record tts_query =
  query_text :: "string option"
  query_voice :: "string option"






subsection \<open>Log route\<close>



text \<open>\<^verbatim>\<open>limit ?\<close>: a negative limit is no limit.\<close>

definition sql_limit :: "int \<Rightarrow> 'a list \<Rightarrow> 'a list" where
  "sql_limit n rows = (if n < 0 then rows else take (nat n) rows)"

text \<open>
  The query of \<^verbatim>\<open>GET /api/super/logs\<close>: \<^verbatim>\<open>q\<close>, and \<^verbatim>\<open>limit\<close> as the integer
  that \<^verbatim>\<open>Number(limit)\<close> gives.
\<close>

record logs_query =
  query_q :: "string option"
  query_limit :: "int option"


text \<open>
  The ids of \<^verbatim>\<open>chat_logs\<close> grow with every insert: the rows, in insertion order, have
  increasing ids, none above the last one given out.
\<close>

definition ids_increasing :: "server \<Rightarrow> bool" where
  "ids_increasing st =
     (sorted_wrt (<) (map log_id (chat_logs st))
      \<and> (\<forall>r\<in>set (chat_logs st). log_id r \<le> log_seq st))"



subsection \<open>The states the server can be in\<close>


section \<open>The in-memory server (src/micronforce_inhouse/server/index.js)\<close>

record mem_settings =
  mem_model :: string
  mem_tts_engine :: string
  mem_tts_voice :: string

record mem_log =
  mem_created_at :: int
  mem_scope :: string
  mem_actor :: string
  mem_messages :: string
  mem_reply :: string

datatype mem_body =
    MemError string "string option"
  | MemSettings mem_settings
  | MemReply string
  | MemLogs "mem_log list"
  | MemAudio string

datatype mem_response = MemResponse nat mem_body

text \<open>
  \<^verbatim>\<open>client.chat.completions.create\<close> of the provider's SDK either throws or returns the
  parsed completion.
\<close>

datatype sdk_result = SdkThrew string | SdkReturned chat_data

record mem_platform =
  sdk_create :: "chat_payload \<Rightarrow> sdk_result"
  mem_stringify :: "chat_message list \<Rightarrow> string"
  speech_fetch :: "speech_payload \<Rightarrow> speech_result"

text \<open>
  The module's variables \<^verbatim>\<open>settings\<close> and \<^verbatim>\<open>logs\<close> (newest first), and the
  requests sent to the provider so far, oldest first.
\<close>

record mem_server =
  current_settings :: mem_settings
  logs :: "mem_log list"
  provider_calls :: "upstream_call list"

type_synonym mem_handler = "mem_server \<Rightarrow> mem_response \<times> mem_server"

text \<open>
  \<^verbatim>\<open>let settings = { model: process.env.CHAT_MODEL || 'gpt-4o-mini', ... }\<close> and
  \<^verbatim>\<open>const logs = []\<close>. This server reads \<^verbatim>\<open>process.env\<close> without defaults, so
  the three strings of the configuration are the variables as set, empty when unset.
\<close>

definition mem_startup :: "config \<Rightarrow> mem_server" where
  "mem_startup cfg =
     \<lparr>current_settings =
        \<lparr>mem_model = (if CHAT_MODEL cfg \<noteq> [] then CHAT_MODEL cfg else ''gpt-4o-mini''),
         mem_tts_engine = (if TTS_ENGINE cfg \<noteq> [] then TTS_ENGINE cfg else ''openai''),
         mem_tts_voice = (if TTS_VOICE cfg \<noteq> [] then TTS_VOICE cfg else ''alloy'')\<rparr>,
      logs = [], provider_calls = []\<rparr>"

definition requireAdmin :: "config \<Rightarrow> request \<Rightarrow> mem_response outcome" where
  "requireAdmin cfg req =
     (let secret = (case ADMIN_BYPASS_TOKEN cfg of None \<Rightarrow> [] | Some t \<Rightarrow> t) in
      if secret = [] then Respond (MemResponse 401 (MemError ''admin_token_missing'' None))
      else if x_admin req \<noteq> Some secret
      then Respond (MemResponse 401 (MemError ''unauthorized'' None))
      else Next)"

text \<open>
  The argument of \<^verbatim>\<open>client.chat.completions.create\<close>:
  \<^verbatim>\<open>{ model: settings.model || 'gpt-4o-mini', temperature: 0.7, messages }\<close>.
\<close>

definition mem_chat_request :: "mem_settings \<Rightarrow> chat_message list \<Rightarrow> chat_payload" where
  "mem_chat_request row msgs =
     \<lparr>payload_model = (if mem_model row \<noteq> [] then mem_model row else ''gpt-4o-mini''),
      payload_messages = msgs\<rparr>"

text \<open>
  \<^verbatim>\<open>callChat(messages)\<close>: the reply text, or the exception of the SDK
  (\<open>Inl\<close>), and the state with the request recorded.
\<close>

definition callChat ::
  "mem_platform \<Rightarrow> chat_message list \<Rightarrow> mem_server \<Rightarrow> (string + string) \<times> mem_server" where
  "callChat pf msgs st =
     (let payload = mem_chat_request (current_settings st) msgs;
          st1 = st\<lparr>provider_calls := provider_calls st @ [ChatCall payload]\<rparr>
      in case sdk_create pf payload of
           SdkThrew e \<Rightarrow> (Inl e, st1)
         | SdkReturned resp \<Rightarrow>
             (Inr (case first_content (Some resp) of
                     None \<Rightarrow> []
                   | Some text \<Rightarrow> if text \<noteq> [] then text else []), st1))"

fun decimal :: "nat \<Rightarrow> string" where
  "decimal n =
     (if n < 10 then [char_of (48 + n)]
      else decimal (n div 10) @ [char_of (48 + n mod 10)])"

text \<open>
  \<^verbatim>\<open>{ model: 'gpt-4o-mini-tts', voice: voice || settings.tts_voice || 'alloy', input: text }\<close>
\<close>

definition mem_speech_request ::
  "mem_settings \<Rightarrow> string \<Rightarrow> string option \<Rightarrow> speech_payload" where
  "mem_speech_request row text voice =
     \<lparr>speech_voice =
        (case voice of
           Some x \<Rightarrow> if x \<noteq> [] then x
                     else if mem_tts_voice row \<noteq> [] then mem_tts_voice row
                     else ''alloy''
         | None \<Rightarrow> if mem_tts_voice row \<noteq> [] then mem_tts_voice row else ''alloy''),
      speech_input = text\<rparr>"

text \<open>
  \<^verbatim>\<open>ttsBuffer(text, voice)\<close>: the audio bytes, or the exception (\<open>Inl\<close>): that of
  \<^verbatim>\<open>fetch\<close>, or the \<^verbatim>\<open>Error\<close> thrown on a status that is not ok.
\<close>

definition ttsBuffer ::
  "mem_platform \<Rightarrow> string \<Rightarrow> string option \<Rightarrow> mem_server \<Rightarrow> (string + string) \<times> mem_server" where
  "ttsBuffer pf text voice st =
     (let payload = mem_speech_request (current_settings st) text voice;
          st1 = st\<lparr>provider_calls := provider_calls st @ [SpeechCall payload]\<rparr>
      in case speech_fetch pf payload of
           SpeechThrew e \<Rightarrow> (Inl e, st1)
         | SpeechResponded status bytes \<Rightarrow>
             if \<not> ok status
             then (Inl (''Error: TTS failed: '' @ decimal status @ '' '' @ bytes), st1)
             else (Inr bytes, st1))"

definition mem_get_settings :: mem_handler where
  "mem_get_settings st = (MemResponse 200 (MemSettings (current_settings st)), st)"

text \<open>
  \<^verbatim>\<open>if (model) settings.model = model;\<close> and so on: a member is taken when it is
  truthy. The handler reads no \<^verbatim>\<open>system_prompt\<close>.
\<close>

definition mem_put_settings :: "settings_body \<Rightarrow> mem_handler" where
  "mem_put_settings b st =
     (let s0 = current_settings st;
          s1 = (case body_model b of
                  Some x \<Rightarrow> if x \<noteq> [] then s0\<lparr>mem_model := x\<rparr> else s0
                | None \<Rightarrow> s0);
          s2 = (case body_tts_engine b of
                  Some x \<Rightarrow> if x \<noteq> [] then s1\<lparr>mem_tts_engine := x\<rparr> else s1
                | None \<Rightarrow> s1);
          s3 = (case body_tts_voice b of
                  Some x \<Rightarrow> if x \<noteq> [] then s2\<lparr>mem_tts_voice := x\<rparr> else s2
                | None \<Rightarrow> s2)
      in (MemResponse 200 (MemSettings s3), st\<lparr>current_settings := s3\<rparr>))"

definition mem_put_settings_all :: "settings_body list \<Rightarrow> mem_server \<Rightarrow> mem_server" where
  "mem_put_settings_all bs st = fold (\<lambda>b s. snd (mem_put_settings b s)) bs st"

text \<open>
  The two chat handlers differ in the scope and the actor of the entry they log;
  \<open>mem_chat\<close> is their common text. \<open>now\<close> is the time \<^verbatim>\<open>nowISO()\<close> formats.
\<close>

definition mem_chat ::
  "mem_platform \<Rightarrow> int \<Rightarrow> string \<Rightarrow> string \<Rightarrow> chat_message list \<Rightarrow> mem_handler" where
  "mem_chat pf now tier who msgs st =
     (case callChat pf msgs st of
        (Inl e, st1) \<Rightarrow> (MemResponse 500 (MemError ''chat_failed'' (Some e)), st1)
      | (Inr text, st1) \<Rightarrow>
          (MemResponse 200 (MemReply text),
           st1\<lparr>logs := \<lparr>mem_created_at = now, mem_scope = tier, mem_actor = who,
                          mem_messages = mem_stringify pf msgs, mem_reply = text\<rparr>
                        # logs st1\<rparr>))"

definition mem_super_chat :: "mem_platform \<Rightarrow> int \<Rightarrow> chat_body \<Rightarrow> mem_handler" where
  "mem_super_chat pf now b =
     (let msgs = messages_of b;
          who = (case admin_user b of None \<Rightarrow> ''superadmin'' | Some a \<Rightarrow> a)
      in mem_chat pf now ''super'' who msgs)"

definition mem_user_chat :: "mem_platform \<Rightarrow> int \<Rightarrow> chat_body \<Rightarrow> mem_handler" where
  "mem_user_chat pf now b =
     (let msgs = messages_of b
      in mem_chat pf now ''user'' ''user'' msgs)"

text \<open>\<^verbatim>\<open>GET /api/super/tts\<close> and \<^verbatim>\<open>GET /api/tts\<close> have the same body.\<close>

definition mem_tts :: "mem_platform \<Rightarrow> tts_query \<Rightarrow> mem_handler" where
  "mem_tts pf query st =
     (case ttsBuffer pf (case query_text query of None \<Rightarrow> [] | Some t \<Rightarrow> t)
             (query_voice query) st of
        (Inl e, st1) \<Rightarrow> (MemResponse 500 (MemError ''tts_failed'' (Some e)), st1)
      | (Inr buf, st1) \<Rightarrow> (MemResponse 200 (MemAudio buf), st1))"

text \<open>\<^verbatim>\<open>String.prototype.includes\<close>\<close>

fun str_includes :: "string \<Rightarrow> string \<Rightarrow> bool" where
  "str_includes [] needle = (needle = [])"
| "str_includes (c # s) needle =
     (take (length needle) (c # s) = needle \<or> str_includes s needle)"

text \<open>The handler reads \<^verbatim>\<open>req.query.q\<close> only; the cap is the constant 200.\<close>

definition mem_logs :: "logs_query \<Rightarrow> mem_handler" where
  "mem_logs query st =
     (let q = toLowerCase (case query_q query of None \<Rightarrow> [] | Some x \<Rightarrow> x);
          filtered = (if q \<noteq> []
                      then filter (\<lambda>r. str_includes (toLowerCase (mem_reply r)) q
                                      \<or> str_includes (toLowerCase (mem_messages r)) q)
                             (logs st)
                      else logs st)
      in (MemResponse 200 (MemLogs (take 200 filtered)), st))"

definition mem_route_get_settings :: "config \<Rightarrow> request \<Rightarrow> mem_handler" where
  "mem_route_get_settings cfg req = run_chain [stateless (requireAdmin cfg req)] mem_get_settings"

definition mem_route_put_settings :: "config \<Rightarrow> request \<Rightarrow> settings_body \<Rightarrow> mem_handler" where
  "mem_route_put_settings cfg req b =
     run_chain [stateless (requireAdmin cfg req)] (mem_put_settings b)"

definition mem_route_super_chat ::
  "config \<Rightarrow> mem_platform \<Rightarrow> int \<Rightarrow> request \<Rightarrow> chat_body \<Rightarrow> mem_handler" where
  "mem_route_super_chat cfg pf now req b =
     run_chain [stateless (requireAdmin cfg req)] (mem_super_chat pf now b)"

definition mem_route_super_tts ::
  "config \<Rightarrow> mem_platform \<Rightarrow> request \<Rightarrow> tts_query \<Rightarrow> mem_handler" where
  "mem_route_super_tts cfg pf req query =
     run_chain [stateless (requireAdmin cfg req)] (mem_tts pf query)"

definition mem_route_logs :: "config \<Rightarrow> request \<Rightarrow> logs_query \<Rightarrow> mem_handler" where
  "mem_route_logs cfg req query =
     run_chain [stateless (requireAdmin cfg req)] (mem_logs query)"

section \<open>Sample inputs\<close>

text \<open>
  Concrete values for the instances given after the theorems: a configuration with a
  bypass secret, a provider that gives a fixed answer to every chat request and audio to
  every speech request, a token decoder that knows one superadmin token, and a
  serializer that writes \<open>role:content;\<close> for each message.
\<close>

definition only_voice :: "string \<Rightarrow> settings_body" where
  "only_voice x =
     \<lparr>body_model = None, body_tts_engine = None, body_tts_voice = Some x,
      body_system_prompt = None\<rparr>"

definition sample_config :: config where
  "sample_config =
     \<lparr>ADMIN_BYPASS_TOKEN = Some ''s3cret'', CHAT_MODEL = ''gpt-4o-mini'',
      TTS_ENGINE = ''openai'', TTS_VOICE = ''alloy''\<rparr>"

definition sample_stringify :: "chat_message list \<Rightarrow> string" where
  "sample_stringify ms = concat (map (\<lambda>m. role m @ '':'' @ content m @ '';'') ms)"

definition sample_platform :: "chat_result \<Rightarrow> platform" where
  "sample_platform answer =
     \<lparr>jwt_decode = (\<lambda>token. if token = ''root-token''
                                then Some (Payload (Some ''superadmin'')) else None),
      stringify = sample_stringify,
      chat_completions = (\<lambda>p. answer),
      audio_speech = (\<lambda>p. SpeechResponded 200 ''mp3'')\<rparr>"

definition sample_mem_platform :: "sdk_result \<Rightarrow> mem_platform" where
  "sample_mem_platform answer =
     \<lparr>sdk_create = (\<lambda>p. answer),
      mem_stringify = sample_stringify,
      speech_fetch = (\<lambda>p. SpeechResponded 200 ''mp3'')\<rparr>"

definition anonymous :: request where
  "anonymous =
     \<lparr>cookie_access = None, x_admin = None, x_forwarded_for = None,
      remote_address = Some ''10.0.0.1''\<rparr>"

definition hi :: chat_message where
  "hi = \<lparr>role = ''user'', content = ''hi''\<rparr>"

definition hello_completion :: chat_data where
  "hello_completion =
     \<lparr>choices = Some [\<lparr>message = Some \<lparr>message_content = Some ''hello''\<rparr>\<rparr>],
      usage = Some \<lparr>prompt_tokens = Some 3, completion_tokens = Some 1\<rparr>,
      other_members = []\<rparr>"




definition says_hi :: chat_body where
  "says_hi = \<lparr>body_messages = Some [hi], admin_user = None, user_id = None\<rparr>"

section \<open>Properties\<close>

subsection \<open>Properties of the rate limiter\<close>

lemma allow_fresh:
  "tbl ip = None \<Longrightarrow>
   allow tbl now ip limit windowMs =
     (1 \<le> limit, tbl(ip \<mapsto> \<lparr>count = 1, reset = now + windowMs\<rparr>))"
  by (simp add: allow_def Let_def)

lemma allow_same_window:
  "tbl ip = Some b \<Longrightarrow> now \<le> reset b \<Longrightarrow>
   allow tbl now ip limit windowMs =
     (count b + 1 \<le> limit, tbl(ip \<mapsto> b\<lparr>count := count b + 1\<rparr>))"
  by (simp add: allow_def Let_def)

lemma allow_new_window:
  "tbl ip = Some b \<Longrightarrow> reset b < now \<Longrightarrow>
   allow tbl now ip limit windowMs =
     (1 \<le> limit, tbl(ip \<mapsto> \<lparr>count = 1, reset = now + windowMs\<rparr>))"
  by (cases b) (simp add: allow_def Let_def)

lemma allow_contract:
  "bs k = Some b \<Longrightarrow>
   allow bs now k l w = (fst (allow_spec b now l w), bs(k \<mapsto> snd (allow_spec b now l w)))"
  by (cases b) (simp add: allow_def allow_spec_def Let_def)

lemma allow_other_key:
  "k \<noteq> ip \<Longrightarrow> snd (allow tbl now ip limit windowMs) k = tbl k"
  by (simp add: allow_def Let_def)

lemma upt_from_1: "[1..<Suc (Suc n)] = 1 # map Suc [1..<Suc n]"
  unfolding map_Suc_upt by (simp add: upt_conv_Cons del: upt_Suc)

lemma within_limit_shift:
  "map (\<lambda>k. c + int k \<le> limit) [1..<Suc (Suc n)] =
     (c + 1 \<le> limit) # map (\<lambda>k. (c + 1) + int k \<le> limit) [1..<Suc n]"
  unfolding upt_from_1 by (simp add: comp_def algebra_simps del: upt_Suc)

lemma allow_calls_same_window:
  "tbl ip = Some b \<Longrightarrow> \<forall>t\<in>set ts. t \<le> reset b \<Longrightarrow>
   allow_calls tbl ip limit windowMs ts =
     (map (\<lambda>k. count b + int k \<le> limit) [1..<Suc (length ts)],
      tbl(ip \<mapsto> b\<lparr>count := count b + int (length ts)\<rparr>))"
proof (induction ts arbitrary: tbl b)
  case Nil
  then have "tbl(ip \<mapsto> b) = tbl" by (simp add: fun_upd_idem)
  then show ?case by simp
next
  case (Cons t ts)
  let ?b = "b\<lparr>count := count b + 1\<rparr>"
  let ?tbl = "tbl(ip \<mapsto> ?b)"
  from Cons.prems have step:
    "allow tbl t ip limit windowMs = (count b + 1 \<le> limit, ?tbl)"
    by (simp add: allow_same_window)
  have later: "allow_calls ?tbl ip limit windowMs ts =
      (map (\<lambda>k. count ?b + int k \<le> limit) [1..<Suc (length ts)],
       ?tbl(ip \<mapsto> ?b\<lparr>count := count ?b + int (length ts)\<rparr>))"
    using Cons.prems by (intro Cons.IH) simp_all
  have shift: "map (\<lambda>k. count b + int k \<le> limit) [1..<Suc (Suc (length ts))] =
      (count b + 1 \<le> limit) # map (\<lambda>k. count ?b + int k \<le> limit) [1..<Suc (length ts)]"
    using within_limit_shift [of "count b" limit "length ts"] by simp
  have "allow_calls tbl ip limit windowMs (t # ts) =
      ((count b + 1 \<le> limit) # map (\<lambda>k. count ?b + int k \<le> limit) [1..<Suc (length ts)],
       ?tbl(ip \<mapsto> ?b\<lparr>count := count ?b + int (length ts)\<rparr>))"
    using step later by simp
  also have "?tbl(ip \<mapsto> ?b\<lparr>count := count ?b + int (length ts)\<rparr>) =
      tbl(ip \<mapsto> b\<lparr>count := count b + int (length (t # ts))\<rparr>)"
    by (simp add: algebra_simps)
  finally show ?case
    using shift by simp
qed

lemma within_limit_pattern:
  "map (\<lambda>k. int k \<le> int n) [1..<Suc (Suc n)] = replicate n True @ [False]"
proof -
  have "map (\<lambda>k. int k \<le> int n) [1..<Suc n] = replicate n True"
    by (rule nth_equalityI) (auto simp: nth_append)
  then show ?thesis by simp
qed

text \<open>
  C1. For every key: on a key that has a bucket, \<open>allow\<close> does what the contract says
  (reset when the current time exceeds the stored reset time, then increment, then
  compare with the limit), and leaves every other key alone. For a key with no bucket,
  \<open>limit + 1\<close> calls, the first at time \<open>t0\<close> and the others no later than
  \<open>t0 + windowMs\<close>, give \<open>limit\<close> allowed calls followed by one refused call; a
  further call after \<open>t0 + windowMs\<close> starts a new window with count 1 and is allowed
  for every positive limit (the routes use 60, 30 and 20).
\<close>

theorem allow_fixed_window:
  assumes fresh: "tbl ip = None"
    and n: "length ts = limit"
    and within: "\<forall>t\<in>set ts. t \<le> t0 + windowMs"
    and after: "t0 + windowMs < t'"
  shows "(\<forall>bs k b now l w. bs k = Some b \<longrightarrow>
            allow bs now k l w =
              (fst (allow_spec b now l w), bs(k \<mapsto> snd (allow_spec b now l w))))
       \<and> fst (allow_calls tbl ip (int limit) windowMs (t0 # ts)) =
            replicate limit True @ [False]
       \<and> allow (snd (allow_calls tbl ip (int limit) windowMs (t0 # ts))) t' ip
            (int limit) windowMs =
           (0 < limit,
            (snd (allow_calls tbl ip (int limit) windowMs (t0 # ts)))
               (ip \<mapsto> \<lparr>count = 1, reset = t' + windowMs\<rparr>))"
proof -
  let ?b1 = "\<lparr>count = 1, reset = t0 + windowMs\<rparr>"
  let ?bucket1 = "tbl(ip \<mapsto> ?b1)"
  have contract: "\<forall>bs k b now l w. bs k = Some b \<longrightarrow>
      allow bs now k l w =
        (fst (allow_spec b now l w), bs(k \<mapsto> snd (allow_spec b now l w)))"
    by (simp add: allow_contract)
  have first: "allow tbl t0 ip (int limit) windowMs = (1 \<le> int limit, ?bucket1)"
    using fresh by (rule allow_fresh)
  have rest: "allow_calls ?bucket1 ip (int limit) windowMs ts =
      (map (\<lambda>k. count ?b1 + int k \<le> int limit) [1..<Suc (length ts)],
       ?bucket1(ip \<mapsto> ?b1\<lparr>count := count ?b1 + int (length ts)\<rparr>))"
    using within by (intro allow_calls_same_window) simp_all
  have "fst (allow_calls tbl ip (int limit) windowMs (t0 # ts)) =
      map (\<lambda>k. int k \<le> int limit) [1..<Suc (Suc limit)]"
    using first rest n within_limit_shift [of 0 "int limit" limit] by simp
  then have results: "fst (allow_calls tbl ip (int limit) windowMs (t0 # ts)) =
      replicate limit True @ [False]"
    by (simp only: within_limit_pattern)
  have final: "snd (allow_calls tbl ip (int limit) windowMs (t0 # ts)) ip =
      Some \<lparr>count = 1 + int limit, reset = t0 + windowMs\<rparr>"
    using first rest n by simp
  have again: "allow (snd (allow_calls tbl ip (int limit) windowMs (t0 # ts))) t' ip
      (int limit) windowMs =
        (1 \<le> int limit,
         (snd (allow_calls tbl ip (int limit) windowMs (t0 # ts)))
            (ip \<mapsto> \<lparr>count = 1, reset = t' + windowMs\<rparr>))"
  proof (rule allow_new_window)
    show "snd (allow_calls tbl ip (int limit) windowMs (t0 # ts)) ip =
        Some \<lparr>count = 1 + int limit, reset = t0 + windowMs\<rparr>"
      by (rule final)
    show "reset \<lparr>count = 1 + int limit, reset = t0 + windowMs\<rparr> < t'"
      using after by simp
  qed
  have positive: "(1 \<le> int limit) = (0 < limit)"
    by auto
  show ?thesis
  proof (intro conjI)
    show "\<forall>bs k b now l w. bs k = Some b \<longrightarrow>
        allow bs now k l w =
          (fst (allow_spec b now l w), bs(k \<mapsto> snd (allow_spec b now l w)))"
      by (rule contract)
    show "fst (allow_calls tbl ip (int limit) windowMs (t0 # ts)) =
        replicate limit True @ [False]"
      by (rule results)
    show "allow (snd (allow_calls tbl ip (int limit) windowMs (t0 # ts))) t' ip
        (int limit) windowMs =
          (0 < limit,
           (snd (allow_calls tbl ip (int limit) windowMs (t0 # ts)))
              (ip \<mapsto> \<lparr>count = 1, reset = t' + windowMs\<rparr>))"
      unfolding positive [symmetric] by (rule again)
  qed
qed

theorem allow_fixed_window_witness:
  "fst (allow_calls Map.empty ''10.0.0.1'' 2 60000 [1000, 1500, 61000]) = [True, True, False]
   \<and> fst (allow (snd (allow_calls Map.empty ''10.0.0.1'' 2 60000 [1000, 1500, 61000]))
            61001 ''10.0.0.1'' 2 60000) = True"
  using allow_fixed_window [of Map.empty "''10.0.0.1''" "[1500, 61000]" 2 1000 60000 61001]
  by (simp add: numeral_2_eq_2)

text \<open>
  C9. Between resets the stored count of a key never decreases: a call that arrives no
  later than the stored reset time adds exactly one and keeps the reset time, and so do
  any number of such calls in a row. The count is reset in one step, by the first call
  that arrives after the stored reset time, which leaves count 1 (0, then the
  increment) and a reset time one window ahead; there is no partial decay. A call for
  another key changes nothing.
\<close>

theorem bucket_count_monotone:
  assumes "tbl ip = Some b"
  shows "(now \<le> reset b \<longrightarrow>
            snd (allow tbl now ip limit windowMs) ip = Some (b\<lparr>count := count b + 1\<rparr>))
       \<and> (reset b < now \<longrightarrow>
            snd (allow tbl now ip limit windowMs) ip =
              Some \<lparr>count = 1, reset = now + windowMs\<rparr>)
       \<and> ((\<forall>t\<in>set ts. t \<le> reset b) \<longrightarrow>
            snd (allow_calls tbl ip limit windowMs ts) ip =
              Some (b\<lparr>count := count b + int (length ts)\<rparr>))
       \<and> (k \<noteq> ip \<longrightarrow> snd (allow tbl now k limit windowMs) ip = tbl ip)"
  using assms
  by (simp add: allow_same_window allow_new_window allow_calls_same_window allow_other_key)

theorem bucket_count_monotone_witness:
  "snd (allow [''a'' \<mapsto> \<lparr>count = 3, reset = 500\<rparr>] 500 ''a'' 30 100) ''a'' =
     Some \<lparr>count = 4, reset = 500\<rparr>
   \<and> snd (allow [''a'' \<mapsto> \<lparr>count = 3, reset = 500\<rparr>] 501 ''a'' 30 100) ''a'' =
     Some \<lparr>count = 1, reset = 601\<rparr>
   \<and> snd (allow_calls [''a'' \<mapsto> \<lparr>count = 3, reset = 500\<rparr>] ''a'' 30 100 [400, 500]) ''a'' =
     Some \<lparr>count = 5, reset = 500\<rparr>
   \<and> snd (allow [''a'' \<mapsto> \<lparr>count = 3, reset = 500\<rparr>] 900 ''b'' 30 100) ''a'' =
     Some \<lparr>count = 3, reset = 500\<rparr>"
  using bucket_count_monotone
    [of "[''a'' \<mapsto> \<lparr>count = 3, reset = 500\<rparr>]" "''a''" "\<lparr>count = 3, reset = 500\<rparr>"
        500 30 100 "[400, 500]" "''a''"]
    bucket_count_monotone
    [of "[''a'' \<mapsto> \<lparr>count = 3, reset = 500\<rparr>]" "''a''" "\<lparr>count = 3, reset = 500\<rparr>"
        501 30 100 "[]" "''a''"]
    bucket_count_monotone
    [of "[''a'' \<mapsto> \<lparr>count = 3, reset = 500\<rparr>]" "''a''" "\<lparr>count = 3, reset = 500\<rparr>"
        900 30 100 "[]" "''b''"]
  by simp

subsection \<open>Properties of the guards\<close>

lemma run_chain_rejected:
  "run_chain (ms @ [stateless (Respond r)]) h st = run_chain ms (\<lambda>s. (r, s)) st"
  by (induction ms arbitrary: st) (auto simp: stateless_def split: prod.splits outcome.splits)

lemma requireSuperadmin_cases:
  "requireSuperadmin cfg pf req =
     (if getRoleFromCookie pf req = Some ''superadmin'' \<or> presents_bypass cfg req then Next
      else Respond (Response 401 (Error ''Superadmin required'' None)))"
  by (simp add: requireSuperadmin_def presents_bypass_def Let_def)

lemma requireAdmin_cases:
  "requireAdmin cfg req =
     (if presents_bypass cfg req then Next
      else if ADMIN_BYPASS_TOKEN cfg = None \<or> ADMIN_BYPASS_TOKEN cfg = Some []
      then Respond (MemResponse 401 (MemError ''admin_token_missing'' None))
      else Respond (MemResponse 401 (MemError ''unauthorized'' None)))"
  by (auto simp: requireAdmin_def presents_bypass_def Let_def split: option.splits)

lemma anonymous_rejected:
  "requireSuperadmin sample_config (sample_platform (Threw [])) anonymous \<noteq> Next"
  "requireAdmin sample_config anonymous \<noteq> Next"
  by (simp_all add: requireSuperadmin_def requireAdmin_def getRoleFromCookie_def
      sample_config_def sample_platform_def anonymous_def)

text \<open>
  C7. \<open>requireSuperadmin\<close> calls \<^verbatim>\<open>next()\<close> exactly when the role resolved from the
  cookie is \<open>superadmin\<close> or the \<^verbatim>\<open>x-admin\<close> header equals the configured, non-empty
  bypass secret. In every other case it answers 401 with the reason
  \<open>Superadmin required\<close>, and a route that ends in this guard then answers without its
  handler: the result is the same for every handler \<open>h\<close>, whatever middlewares \<open>ms\<close>
  come first. The guard of the in-memory server, \<open>requireAdmin\<close>, resolves no role: it
  passes exactly on the bypass secret, and otherwise answers 401 with a reason, again
  without the handler.
\<close>

theorem superadmin_guard:
  "(requireSuperadmin cfg pf req = Next \<longleftrightarrow>
      getRoleFromCookie pf req = Some ''superadmin'' \<or> presents_bypass cfg req)
   \<and> (requireSuperadmin cfg pf req \<noteq> Next \<longrightarrow>
        requireSuperadmin cfg pf req =
          Respond (Response 401 (Error ''Superadmin required'' None))
        \<and> run_chain (ms @ [stateless (requireSuperadmin cfg pf req)]) h st =
            run_chain ms (\<lambda>s. (Response 401 (Error ''Superadmin required'' None), s)) st)
   \<and> (requireAdmin cfg req = Next \<longleftrightarrow> presents_bypass cfg req)
   \<and> (requireAdmin cfg req \<noteq> Next \<longrightarrow>
        (\<exists>reason. requireAdmin cfg req = Respond (MemResponse 401 (MemError reason None))
           \<and> run_chain (ms' @ [stateless (requireAdmin cfg req)]) h' st' =
               run_chain ms' (\<lambda>s. (MemResponse 401 (MemError reason None), s)) st'))"
  by (simp add: requireSuperadmin_cases requireAdmin_cases run_chain_rejected)

theorem superadmin_guard_witness:
  "route_put_settings sample_config (sample_platform (Threw [])) anonymous
      \<lparr>body_model = Some ''x'', body_tts_engine = None, body_tts_voice = None,
       body_system_prompt = None\<rparr> startup =
     (Response 401 (Error ''Superadmin required'' None), startup)
   \<and> requireSuperadmin sample_config (sample_platform (Threw []))
        (anonymous\<lparr>x_admin := Some ''s3cret''\<rparr>) = Next
   \<and> requireSuperadmin sample_config (sample_platform (Threw []))
        (anonymous\<lparr>cookie_access := Some ''root-token''\<rparr>) = Next
   \<and> fst (mem_route_logs sample_config anonymous
        \<lparr>query_q = None, query_limit = None\<rparr> (mem_startup sample_config)) =
       MemResponse 401 (MemError ''unauthorized'' None)
   \<and> requireAdmin sample_config (anonymous\<lparr>x_admin := Some ''s3cret''\<rparr>) = Next"
proof -
  let ?pf = "sample_platform (Threw [])"
  let ?b = "\<lparr>body_model = Some ''x'', body_tts_engine = None, body_tts_voice = None,
       body_system_prompt = None\<rparr>"
  note g = superadmin_guard [of sample_config ?pf anonymous "[]" "put_settings ?b" startup
      "[]" "mem_logs \<lparr>query_q = None, query_limit = None\<rparr>" "mem_startup sample_config"]
  have 1: "route_put_settings sample_config ?pf anonymous ?b startup =
     (Response 401 (Error ''Superadmin required'' None), startup)"
    using g anonymous_rejected by (simp add: route_put_settings_def stateless_def)
  have 2: "requireSuperadmin sample_config ?pf (anonymous\<lparr>x_admin := Some ''s3cret''\<rparr>) = Next"
    using superadmin_guard [of sample_config ?pf "anonymous\<lparr>x_admin := Some ''s3cret''\<rparr>",
        THEN conjunct1]
    by (simp add: presents_bypass_def sample_config_def)
  have 3: "requireSuperadmin sample_config ?pf
      (anonymous\<lparr>cookie_access := Some ''root-token''\<rparr>) = Next"
    using superadmin_guard [of sample_config ?pf
        "anonymous\<lparr>cookie_access := Some ''root-token''\<rparr>", THEN conjunct1]
    by (simp add: getRoleFromCookie_def sample_platform_def)
  have 4: "fst (mem_route_logs sample_config anonymous
        \<lparr>query_q = None, query_limit = None\<rparr> (mem_startup sample_config)) =
       MemResponse 401 (MemError ''unauthorized'' None)"
    using g anonymous_rejected
    by (auto simp: mem_route_logs_def requireAdmin_def sample_config_def anonymous_def
        stateless_def)
  have 5: "requireAdmin sample_config (anonymous\<lparr>x_admin := Some ''s3cret''\<rparr>) = Next"
    using superadmin_guard [of sample_config ?pf "anonymous\<lparr>x_admin := Some ''s3cret''\<rparr>",
        THEN conjunct2, THEN conjunct2, THEN conjunct1]
    by (simp add: presents_bypass_def sample_config_def)
  show ?thesis using 1 2 3 4 5 by blast
qed

subsection \<open>Properties of the settings update\<close>

lemma put_settings_row:
  "chat_settings (snd (put_settings b st)) =
     \<lparr>model = coalesce (body_model b) (model (chat_settings st)),
      tts_engine = coalesce (body_tts_engine b) (tts_engine (chat_settings st)),
      tts_voice = coalesce (body_tts_voice b) (tts_voice (chat_settings st)),
      system_prompt = coalesce (body_system_prompt b) (system_prompt (chat_settings st))\<rparr>"
  by (simp add: put_settings_def Let_def)

lemma put_settings_frame:
  "snd (put_settings b st) = st\<lparr>chat_settings := chat_settings (snd (put_settings b st))\<rparr>"
  by (simp add: put_settings_def Let_def)

lemma put_settings_fields:
  "(body_model b = None \<longrightarrow>
      model (chat_settings (snd (put_settings b st))) = model (chat_settings st))
   \<and> (\<forall>v. body_model b = Some v \<longrightarrow> model (chat_settings (snd (put_settings b st))) = v)
   \<and> (body_tts_engine b = None \<longrightarrow>
      tts_engine (chat_settings (snd (put_settings b st))) = tts_engine (chat_settings st))
   \<and> (\<forall>v. body_tts_engine b = Some v \<longrightarrow>
      tts_engine (chat_settings (snd (put_settings b st))) = v)
   \<and> (body_tts_voice b = None \<longrightarrow>
      tts_voice (chat_settings (snd (put_settings b st))) = tts_voice (chat_settings st))
   \<and> (\<forall>v. body_tts_voice b = Some v \<longrightarrow>
      tts_voice (chat_settings (snd (put_settings b st))) = v)
   \<and> (body_system_prompt b = None \<longrightarrow>
      system_prompt (chat_settings (snd (put_settings b st))) =
        system_prompt (chat_settings st))
   \<and> (\<forall>v. body_system_prompt b = Some v \<longrightarrow>
      system_prompt (chat_settings (snd (put_settings b st))) = v)"
  by (simp add: put_settings_row coalesce_def)

lemma put_settings_all_Cons:
  "put_settings_all (b # bs) st = put_settings_all bs (snd (put_settings b st))"
  by (simp add: put_settings_all_def)

lemma put_settings_all_model:
  "\<forall>b\<in>set bs. body_model b = None \<Longrightarrow>
   model (chat_settings (put_settings_all bs st)) = model (chat_settings st)"
proof (induction bs arbitrary: st)
  case Nil
  show ?case by (simp add: put_settings_all_def)
next
  case (Cons b bs)
  then show ?case
    by (simp add: put_settings_all_Cons put_settings_row coalesce_def)
qed

lemma put_settings_all_tts_engine:
  "\<forall>b\<in>set bs. body_tts_engine b = None \<Longrightarrow>
   tts_engine (chat_settings (put_settings_all bs st)) = tts_engine (chat_settings st)"
proof (induction bs arbitrary: st)
  case Nil
  show ?case by (simp add: put_settings_all_def)
next
  case (Cons b bs)
  then show ?case
    by (simp add: put_settings_all_Cons put_settings_row coalesce_def)
qed

lemma put_settings_all_tts_voice:
  "\<forall>b\<in>set bs. body_tts_voice b = None \<Longrightarrow>
   tts_voice (chat_settings (put_settings_all bs st)) = tts_voice (chat_settings st)"
proof (induction bs arbitrary: st)
  case Nil
  show ?case by (simp add: put_settings_all_def)
next
  case (Cons b bs)
  then show ?case
    by (simp add: put_settings_all_Cons put_settings_row coalesce_def)
qed

lemma put_settings_all_system_prompt:
  "\<forall>b\<in>set bs. body_system_prompt b = None \<Longrightarrow>
   system_prompt (chat_settings (put_settings_all bs st)) = system_prompt (chat_settings st)"
proof (induction bs arbitrary: st)
  case Nil
  show ?case by (simp add: put_settings_all_def)
next
  case (Cons b bs)
  then show ?case
    by (simp add: put_settings_all_Cons put_settings_row coalesce_def)
qed

lemma put_settings_all_fields:
  "((\<forall>b\<in>set bs. body_model b = None) \<longrightarrow>
      model (chat_settings (put_settings_all bs st)) = model (chat_settings st))
   \<and> ((\<forall>b\<in>set bs. body_tts_engine b = None) \<longrightarrow>
      tts_engine (chat_settings (put_settings_all bs st)) = tts_engine (chat_settings st))
   \<and> ((\<forall>b\<in>set bs. body_tts_voice b = None) \<longrightarrow>
      tts_voice (chat_settings (put_settings_all bs st)) = tts_voice (chat_settings st))
   \<and> ((\<forall>b\<in>set bs. body_system_prompt b = None) \<longrightarrow>
      system_prompt (chat_settings (put_settings_all bs st)) =
        system_prompt (chat_settings st))"
  using put_settings_all_model put_settings_all_tts_engine put_settings_all_tts_voice
    put_settings_all_system_prompt
  by blast

lemma mem_put_settings_fields:
  "(\<not> truthy (body_model b) \<longrightarrow>
      mem_model (current_settings (snd (mem_put_settings b m))) =
        mem_model (current_settings m))
   \<and> (\<forall>v. body_model b = Some v \<and> v \<noteq> [] \<longrightarrow>
      mem_model (current_settings (snd (mem_put_settings b m))) = v)
   \<and> (\<not> truthy (body_tts_engine b) \<longrightarrow>
      mem_tts_engine (current_settings (snd (mem_put_settings b m))) =
        mem_tts_engine (current_settings m))
   \<and> (\<forall>v. body_tts_engine b = Some v \<and> v \<noteq> [] \<longrightarrow>
      mem_tts_engine (current_settings (snd (mem_put_settings b m))) = v)
   \<and> (\<not> truthy (body_tts_voice b) \<longrightarrow>
      mem_tts_voice (current_settings (snd (mem_put_settings b m))) =
        mem_tts_voice (current_settings m))
   \<and> (\<forall>v. body_tts_voice b = Some v \<and> v \<noteq> [] \<longrightarrow>
      mem_tts_voice (current_settings (snd (mem_put_settings b m))) = v)"
  by (simp add: mem_put_settings_def truthy_def Let_def split: option.splits)

lemma mem_put_settings_all_Cons:
  "mem_put_settings_all (b # bs) m = mem_put_settings_all bs (snd (mem_put_settings b m))"
  by (simp add: mem_put_settings_all_def)

lemma mem_put_settings_all_model:
  "\<forall>b\<in>set bs. \<not> truthy (body_model b) \<Longrightarrow>
   mem_model (current_settings (mem_put_settings_all bs m)) = mem_model (current_settings m)"
proof (induction bs arbitrary: m)
  case Nil
  show ?case by (simp add: mem_put_settings_all_def)
next
  case (Cons b bs)
  then show ?case
    using mem_put_settings_fields [of b m] by (simp add: mem_put_settings_all_Cons)
qed

lemma mem_put_settings_all_tts_engine:
  "\<forall>b\<in>set bs. \<not> truthy (body_tts_engine b) \<Longrightarrow>
   mem_tts_engine (current_settings (mem_put_settings_all bs m)) =
     mem_tts_engine (current_settings m)"
proof (induction bs arbitrary: m)
  case Nil
  show ?case by (simp add: mem_put_settings_all_def)
next
  case (Cons b bs)
  then show ?case
    using mem_put_settings_fields [of b m] by (simp add: mem_put_settings_all_Cons)
qed

lemma mem_put_settings_all_tts_voice:
  "\<forall>b\<in>set bs. \<not> truthy (body_tts_voice b) \<Longrightarrow>
   mem_tts_voice (current_settings (mem_put_settings_all bs m)) =
     mem_tts_voice (current_settings m)"
proof (induction bs arbitrary: m)
  case Nil
  show ?case by (simp add: mem_put_settings_all_def)
next
  case (Cons b bs)
  then show ?case
    using mem_put_settings_fields [of b m] by (simp add: mem_put_settings_all_Cons)
qed

lemma mem_put_settings_all_fields:
  "((\<forall>b\<in>set bs. \<not> truthy (body_model b)) \<longrightarrow>
      mem_model (current_settings (mem_put_settings_all bs m)) =
        mem_model (current_settings m))
   \<and> ((\<forall>b\<in>set bs. \<not> truthy (body_tts_engine b)) \<longrightarrow>
      mem_tts_engine (current_settings (mem_put_settings_all bs m)) =
        mem_tts_engine (current_settings m))
   \<and> ((\<forall>b\<in>set bs. \<not> truthy (body_tts_voice b)) \<longrightarrow>
      mem_tts_voice (current_settings (mem_put_settings_all bs m)) =
        mem_tts_voice (current_settings m))"
  using mem_put_settings_all_model mem_put_settings_all_tts_engine
    mem_put_settings_all_tts_voice
  by blast

lemma only_voice_update:
  "chat_settings (snd (put_settings (only_voice x) st)) = (chat_settings st)\<lparr>tts_voice := x\<rparr>
   \<and> (x \<noteq> [] \<longrightarrow>
        current_settings (snd (mem_put_settings (only_voice x) m)) =
          (current_settings m)\<lparr>mem_tts_voice := x\<rparr>)"
  by (simp add: put_settings_row only_voice_def coalesce_def mem_put_settings_def Let_def)

text \<open>
  C2, as the code has it. In the SQLite-backed server a field of the settings row is
  replaced exactly when the member of the body is present and not \<^verbatim>\<open>null\<close>, by the
  value given, the empty string included; a missing or \<^verbatim>\<open>null\<close> member leaves the
  stored value as it is, and the update touches nothing but the settings row. In the
  in-memory server \<open>model\<close>, \<open>tts_engine\<close> and \<open>tts_voice\<close> are replaced exactly when the
  member is present and not empty. In both servers, over any sequence of updates, a
  field that no update supplies keeps its value, and an update that supplies only a
  voice changes the voice and leaves the model and the system prompt as they were.
\<close>

theorem settings_update_coalesces:
  "((body_model b = None \<longrightarrow>
      model (chat_settings (snd (put_settings b st))) = model (chat_settings st))
   \<and> (\<forall>v. body_model b = Some v \<longrightarrow> model (chat_settings (snd (put_settings b st))) = v)
   \<and> (body_tts_engine b = None \<longrightarrow>
      tts_engine (chat_settings (snd (put_settings b st))) = tts_engine (chat_settings st))
   \<and> (\<forall>v. body_tts_engine b = Some v \<longrightarrow>
      tts_engine (chat_settings (snd (put_settings b st))) = v)
   \<and> (body_tts_voice b = None \<longrightarrow>
      tts_voice (chat_settings (snd (put_settings b st))) = tts_voice (chat_settings st))
   \<and> (\<forall>v. body_tts_voice b = Some v \<longrightarrow>
      tts_voice (chat_settings (snd (put_settings b st))) = v)
   \<and> (body_system_prompt b = None \<longrightarrow>
      system_prompt (chat_settings (snd (put_settings b st))) =
        system_prompt (chat_settings st))
   \<and> (\<forall>v. body_system_prompt b = Some v \<longrightarrow>
      system_prompt (chat_settings (snd (put_settings b st))) = v))
   \<and> snd (put_settings b st) = st\<lparr>chat_settings := chat_settings (snd (put_settings b st))\<rparr>
   \<and> (((\<forall>b\<in>set bs. body_model b = None) \<longrightarrow>
      model (chat_settings (put_settings_all bs st)) = model (chat_settings st))
   \<and> ((\<forall>b\<in>set bs. body_tts_engine b = None) \<longrightarrow>
      tts_engine (chat_settings (put_settings_all bs st)) = tts_engine (chat_settings st))
   \<and> ((\<forall>b\<in>set bs. body_tts_voice b = None) \<longrightarrow>
      tts_voice (chat_settings (put_settings_all bs st)) = tts_voice (chat_settings st))
   \<and> ((\<forall>b\<in>set bs. body_system_prompt b = None) \<longrightarrow>
      system_prompt (chat_settings (put_settings_all bs st)) =
        system_prompt (chat_settings st)))
   \<and> ((\<not> truthy (body_model b) \<longrightarrow>
      mem_model (current_settings (snd (mem_put_settings b m))) =
        mem_model (current_settings m))
   \<and> (\<forall>v. body_model b = Some v \<and> v \<noteq> [] \<longrightarrow>
      mem_model (current_settings (snd (mem_put_settings b m))) = v)
   \<and> (\<not> truthy (body_tts_engine b) \<longrightarrow>
      mem_tts_engine (current_settings (snd (mem_put_settings b m))) =
        mem_tts_engine (current_settings m))
   \<and> (\<forall>v. body_tts_engine b = Some v \<and> v \<noteq> [] \<longrightarrow>
      mem_tts_engine (current_settings (snd (mem_put_settings b m))) = v)
   \<and> (\<not> truthy (body_tts_voice b) \<longrightarrow>
      mem_tts_voice (current_settings (snd (mem_put_settings b m))) =
        mem_tts_voice (current_settings m))
   \<and> (\<forall>v. body_tts_voice b = Some v \<and> v \<noteq> [] \<longrightarrow>
      mem_tts_voice (current_settings (snd (mem_put_settings b m))) = v))
   \<and> (((\<forall>b\<in>set bs. \<not> truthy (body_model b)) \<longrightarrow>
      mem_model (current_settings (mem_put_settings_all bs m)) =
        mem_model (current_settings m))
   \<and> ((\<forall>b\<in>set bs. \<not> truthy (body_tts_engine b)) \<longrightarrow>
      mem_tts_engine (current_settings (mem_put_settings_all bs m)) =
        mem_tts_engine (current_settings m))
   \<and> ((\<forall>b\<in>set bs. \<not> truthy (body_tts_voice b)) \<longrightarrow>
      mem_tts_voice (current_settings (mem_put_settings_all bs m)) =
        mem_tts_voice (current_settings m)))
   \<and> (chat_settings (snd (put_settings (only_voice x) st)) =
        (chat_settings st)\<lparr>tts_voice := x\<rparr>
   \<and> (x \<noteq> [] \<longrightarrow>
        current_settings (snd (mem_put_settings (only_voice x) m)) =
          (current_settings m)\<lparr>mem_tts_voice := x\<rparr>))"
  by (rule conjI [OF put_settings_fields conjI [OF put_settings_frame
        conjI [OF put_settings_all_fields conjI [OF mem_put_settings_fields
        conjI [OF mem_put_settings_all_fields only_voice_update]]]]])

theorem settings_update_coalesces_witness:
  "chat_settings (snd (put_settings (only_voice ''nova'') startup)) =
     \<lparr>model = ''gpt-4o-mini'', tts_engine = ''openai'', tts_voice = ''nova'',
      system_prompt = []\<rparr>
   \<and> chat_settings (put_settings_all [only_voice ''nova'', only_voice ''echo''] startup) =
     \<lparr>model = ''gpt-4o-mini'', tts_engine = ''openai'', tts_voice = ''echo'',
      system_prompt = []\<rparr>
   \<and> current_settings (snd (mem_put_settings (only_voice ''nova'') (mem_startup sample_config))) =
     \<lparr>mem_model = ''gpt-4o-mini'', mem_tts_engine = ''openai'', mem_tts_voice = ''nova''\<rparr>
   \<and> mem_model (current_settings
        (mem_put_settings_all [only_voice ''nova'', only_voice ''echo'']
           (mem_startup sample_config))) = ''gpt-4o-mini''"
proof -
  let ?bs = "[only_voice ''nova'', only_voice ''echo'']"
  note t = settings_update_coalesces [of "only_voice ''nova''" startup ?bs
      "mem_startup sample_config" "''nova''"]
  note sequence = t [THEN conjunct2, THEN conjunct2, THEN conjunct1]
  note mem_sequence = t [THEN conjunct2, THEN conjunct2, THEN conjunct2, THEN conjunct2,
      THEN conjunct1, THEN conjunct1]
  note voice = t [THEN conjunct2, THEN conjunct2, THEN conjunct2, THEN conjunct2,
      THEN conjunct2]
  have none: "\<forall>b\<in>set ?bs. body_model b = None"
    "\<forall>b\<in>set ?bs. body_tts_engine b = None"
    "\<forall>b\<in>set ?bs. body_system_prompt b = None"
    "\<forall>b\<in>set ?bs. \<not> truthy (body_model b)"
    by (simp_all add: only_voice_def truthy_def)
  have 1: "chat_settings (snd (put_settings (only_voice ''nova'') startup)) =
     \<lparr>model = ''gpt-4o-mini'', tts_engine = ''openai'', tts_voice = ''nova'',
      system_prompt = []\<rparr>"
    using voice [THEN conjunct1] by (simp add: startup_def)
  have "model (chat_settings (put_settings_all ?bs startup)) = model (chat_settings startup)"
    using sequence [THEN conjunct1] none(1) by (rule mp)
  moreover have "tts_engine (chat_settings (put_settings_all ?bs startup)) =
      tts_engine (chat_settings startup)"
    using sequence [THEN conjunct2, THEN conjunct1] none(2) by (rule mp)
  moreover have "system_prompt (chat_settings (put_settings_all ?bs startup)) =
      system_prompt (chat_settings startup)"
    using sequence [THEN conjunct2, THEN conjunct2, THEN conjunct2] none(3) by (rule mp)
  moreover have "tts_voice (chat_settings (put_settings_all ?bs startup)) = ''echo''"
    by (simp add: put_settings_all_def put_settings_row only_voice_def coalesce_def)
  ultimately have 2: "chat_settings (put_settings_all ?bs startup) =
     \<lparr>model = ''gpt-4o-mini'', tts_engine = ''openai'', tts_voice = ''echo'',
      system_prompt = []\<rparr>"
    by (cases "chat_settings (put_settings_all ?bs startup)") (simp add: startup_def)
  have 3: "current_settings (snd (mem_put_settings (only_voice ''nova'')
      (mem_startup sample_config))) =
     \<lparr>mem_model = ''gpt-4o-mini'', mem_tts_engine = ''openai'', mem_tts_voice = ''nova''\<rparr>"
    using voice [THEN conjunct2] by (simp add: mem_startup_def sample_config_def)
  have "mem_model (current_settings (mem_put_settings_all ?bs (mem_startup sample_config))) =
      mem_model (current_settings (mem_startup sample_config))"
    using mem_sequence none(4) by (rule mp)
  then have 4: "mem_model (current_settings
      (mem_put_settings_all ?bs (mem_startup sample_config))) = ''gpt-4o-mini''"
    by (simp add: mem_startup_def sample_config_def)
  show ?thesis using 1 2 3 4 by blast
qed

theorem put_settings_stores_empty_string:
  "model (chat_settings startup) = ''gpt-4o-mini''
   \<and> model (chat_settings (snd (put_settings
        \<lparr>body_model = Some [], body_tts_engine = None, body_tts_voice = None,
         body_system_prompt = None\<rparr> startup))) = []"
  by (simp add: put_settings_row coalesce_def startup_def)

subsection \<open>Properties of the speech routes\<close>

















subsection \<open>Properties of the chat routes\<close>






lemma chat_ok:
  "chat_completions pf (chat_request cfg (chat_settings st) msgs) = Responded status data \<Longrightarrow>
   ok status \<Longrightarrow>
   chat cfg pf now who tier msgs st =
     (Response 200 (ChatReply (reply_of data) (usage_of data) now),
      st\<lparr>upstream_calls :=
           upstream_calls st @ [ChatCall (chat_request cfg (chat_settings st) msgs)],
         chat_logs :=
           chat_logs st @
             [\<lparr>log_id = Suc (log_seq st), actor = who, scope = tier,
               messages = stringify pf (payload_messages
                            (chat_request cfg (chat_settings st) msgs)),
               reply = reply_of data,
               tokens_prompt = or_null (prompt_tokens (usage_of data)),
               tokens_completion = or_null (completion_tokens (usage_of data)),
               created_at = now\<rparr>],
         log_seq := Suc (log_seq st)\<rparr>)"
  by (simp add: chat_def insert_log_def chat_request_def Let_def)

text \<open>The actor each route logs.\<close>

lemma super_chat_chat:
  "super_chat cfg pf now b =
     chat cfg pf now (case admin_user b of None \<Rightarrow> ''superadmin'' | Some a \<Rightarrow> a) ''super''
       (messages_of b)"
  by (simp add: super_chat_def Let_def)

lemma user_chat_chat:
  "user_chat cfg pf now req b =
     chat cfg pf now
       (if truthy (user_id b) then ''user:'' @ the (user_id b) else ''ip:'' @ client_ip req)
       ''user'' (messages_of b)"
  by (simp add: user_chat_def truthy_def Let_def split: option.splits)

lemma mem_reply_text:
  "(case first_content (Some resp) of None \<Rightarrow> [] | Some text \<Rightarrow> if text \<noteq> [] then text else []) =
     reply_of (Some resp)"
  by (simp add: reply_of_def split: option.splits)

lemma mem_chat_threw:
  "sdk_create mpf (mem_chat_request (current_settings m) msgs) = SdkThrew e \<Longrightarrow>
   mem_chat mpf now tier who msgs m =
     (MemResponse 500 (MemError ''chat_failed'' (Some e)),
      m\<lparr>provider_calls :=
          provider_calls m @ [ChatCall (mem_chat_request (current_settings m) msgs)]\<rparr>)"
  by (simp add: mem_chat_def callChat_def Let_def)

lemma mem_chat_returned:
  "sdk_create mpf (mem_chat_request (current_settings m) msgs) = SdkReturned resp \<Longrightarrow>
   mem_chat mpf now tier who msgs m =
     (MemResponse 200 (MemReply (reply_of (Some resp))),
      m\<lparr>provider_calls :=
          provider_calls m @ [ChatCall (mem_chat_request (current_settings m) msgs)],
        logs :=
          \<lparr>mem_created_at = now, mem_scope = tier, mem_actor = who,
           mem_messages = mem_stringify mpf
             (payload_messages (mem_chat_request (current_settings m) msgs)),
           mem_reply = reply_of (Some resp)\<rparr> # logs m\<rparr>)"
  by (simp add: mem_chat_def callChat_def mem_reply_text mem_chat_request_def Let_def)

lemma mem_super_chat_chat:
  "mem_super_chat mpf now b =
     mem_chat mpf now ''super''
       (case admin_user b of None \<Rightarrow> ''superadmin'' | Some a \<Rightarrow> a) (messages_of b)"
  by (simp add: mem_super_chat_def Let_def)

lemma mem_user_chat_chat:
  "mem_user_chat mpf now b = mem_chat mpf now ''user'' ''user'' (messages_of b)"
  by (simp add: mem_user_chat_def Let_def)







text \<open>
  C5. When the provider answers a chat request with an ok status, the handler adds
  exactly one row to \<open>chat_logs\<close>: its scope is \<open>super\<close> on the superadmin route and
  \<open>user\<close> on the user route, its reply is the text of the response sent to the caller,
  and its messages are the serialization of the very list that went upstream in the
  one request recorded. The in-memory server, when the SDK returns a completion, puts
  one entry in front of \<open>logs\<close> in the same way.
\<close>

theorem successful_chat_logged:
  assumes "chat_completions pf (chat_request cfg (chat_settings st) (messages_of b)) =
      Responded status data"
    and "ok status"
    and "sdk_create mpf (mem_chat_request (current_settings m) (messages_of b)) =
      SdkReturned resp"
  shows "fst (super_chat cfg pf now b st) =
       Response 200 (ChatReply (reply_of data) (usage_of data) now)
   \<and> upstream_calls (snd (super_chat cfg pf now b st)) =
       upstream_calls st @ [ChatCall (chat_request cfg (chat_settings st) (messages_of b))]
   \<and> chat_logs (snd (super_chat cfg pf now b st)) =
       chat_logs st @
         [\<lparr>log_id = Suc (log_seq st),
           actor = (case admin_user b of None \<Rightarrow> ''superadmin'' | Some a \<Rightarrow> a),
           scope = ''super'',
           messages = stringify pf (payload_messages
                        (chat_request cfg (chat_settings st) (messages_of b))),
           reply = reply_of data,
           tokens_prompt = or_null (prompt_tokens (usage_of data)),
           tokens_completion = or_null (completion_tokens (usage_of data)),
           created_at = now\<rparr>]
   \<and> fst (user_chat cfg pf now req b st) =
       Response 200 (ChatReply (reply_of data) (usage_of data) now)
   \<and> upstream_calls (snd (user_chat cfg pf now req b st)) =
       upstream_calls st @ [ChatCall (chat_request cfg (chat_settings st) (messages_of b))]
   \<and> chat_logs (snd (user_chat cfg pf now req b st)) =
       chat_logs st @
         [\<lparr>log_id = Suc (log_seq st),
           actor = (if truthy (user_id b) then ''user:'' @ the (user_id b)
                    else ''ip:'' @ client_ip req),
           scope = ''user'',
           messages = stringify pf (payload_messages
                        (chat_request cfg (chat_settings st) (messages_of b))),
           reply = reply_of data,
           tokens_prompt = or_null (prompt_tokens (usage_of data)),
           tokens_completion = or_null (completion_tokens (usage_of data)),
           created_at = now\<rparr>]
   \<and> fst (mem_super_chat mpf now b m) = MemResponse 200 (MemReply (reply_of (Some resp)))
   \<and> provider_calls (snd (mem_super_chat mpf now b m)) =
       provider_calls m @ [ChatCall (mem_chat_request (current_settings m) (messages_of b))]
   \<and> logs (snd (mem_super_chat mpf now b m)) =
       \<lparr>mem_created_at = now, mem_scope = ''super'',
        mem_actor = (case admin_user b of None \<Rightarrow> ''superadmin'' | Some a \<Rightarrow> a),
        mem_messages = mem_stringify mpf
          (payload_messages (mem_chat_request (current_settings m) (messages_of b))),
        mem_reply = reply_of (Some resp)\<rparr> # logs m
   \<and> fst (mem_user_chat mpf now b m) = MemResponse 200 (MemReply (reply_of (Some resp)))
   \<and> provider_calls (snd (mem_user_chat mpf now b m)) =
       provider_calls m @ [ChatCall (mem_chat_request (current_settings m) (messages_of b))]
   \<and> logs (snd (mem_user_chat mpf now b m)) =
       \<lparr>mem_created_at = now, mem_scope = ''user'', mem_actor = ''user'',
        mem_messages = mem_stringify mpf
          (payload_messages (mem_chat_request (current_settings m) (messages_of b))),
        mem_reply = reply_of (Some resp)\<rparr> # logs m"
proof -
  note sql = chat_ok [OF assms(1,2)]
  note mem = mem_chat_returned [OF assms(3)]
  have s: "fst (super_chat cfg pf now b st) =
       Response 200 (ChatReply (reply_of data) (usage_of data) now)
   \<and> upstream_calls (snd (super_chat cfg pf now b st)) =
       upstream_calls st @ [ChatCall (chat_request cfg (chat_settings st) (messages_of b))]
   \<and> chat_logs (snd (super_chat cfg pf now b st)) =
       chat_logs st @
         [\<lparr>log_id = Suc (log_seq st),
           actor = (case admin_user b of None \<Rightarrow> ''superadmin'' | Some a \<Rightarrow> a),
           scope = ''super'',
           messages = stringify pf (payload_messages
                        (chat_request cfg (chat_settings st) (messages_of b))),
           reply = reply_of data,
           tokens_prompt = or_null (prompt_tokens (usage_of data)),
           tokens_completion = or_null (completion_tokens (usage_of data)),
           created_at = now\<rparr>]"
    by (simp add: super_chat_chat sql)
  have u: "fst (user_chat cfg pf now req b st) =
       Response 200 (ChatReply (reply_of data) (usage_of data) now)
   \<and> upstream_calls (snd (user_chat cfg pf now req b st)) =
       upstream_calls st @ [ChatCall (chat_request cfg (chat_settings st) (messages_of b))]
   \<and> chat_logs (snd (user_chat cfg pf now req b st)) =
       chat_logs st @
         [\<lparr>log_id = Suc (log_seq st),
           actor = (if truthy (user_id b) then ''user:'' @ the (user_id b)
                    else ''ip:'' @ client_ip req),
           scope = ''user'',
           messages = stringify pf (payload_messages
                        (chat_request cfg (chat_settings st) (messages_of b))),
           reply = reply_of data,
           tokens_prompt = or_null (prompt_tokens (usage_of data)),
           tokens_completion = or_null (completion_tokens (usage_of data)),
           created_at = now\<rparr>]"
    by (simp add: user_chat_chat sql)
  have ms: "fst (mem_super_chat mpf now b m) = MemResponse 200 (MemReply (reply_of (Some resp)))
   \<and> provider_calls (snd (mem_super_chat mpf now b m)) =
       provider_calls m @ [ChatCall (mem_chat_request (current_settings m) (messages_of b))]
   \<and> logs (snd (mem_super_chat mpf now b m)) =
       \<lparr>mem_created_at = now, mem_scope = ''super'',
        mem_actor = (case admin_user b of None \<Rightarrow> ''superadmin'' | Some a \<Rightarrow> a),
        mem_messages = mem_stringify mpf
          (payload_messages (mem_chat_request (current_settings m) (messages_of b))),
        mem_reply = reply_of (Some resp)\<rparr> # logs m"
    by (simp add: mem_super_chat_chat mem)
  have mu: "fst (mem_user_chat mpf now b m) = MemResponse 200 (MemReply (reply_of (Some resp)))
   \<and> provider_calls (snd (mem_user_chat mpf now b m)) =
       provider_calls m @ [ChatCall (mem_chat_request (current_settings m) (messages_of b))]
   \<and> logs (snd (mem_user_chat mpf now b m)) =
       \<lparr>mem_created_at = now, mem_scope = ''user'', mem_actor = ''user'',
        mem_messages = mem_stringify mpf
          (payload_messages (mem_chat_request (current_settings m) (messages_of b))),
        mem_reply = reply_of (Some resp)\<rparr> # logs m"
    by (simp add: mem_user_chat_chat mem)
  show ?thesis
    using s u ms mu by (simp only: simp_thms)
qed

theorem successful_chat_logged_witness:
  "fst (user_chat sample_config (sample_platform (Responded 200 (Some hello_completion))) 1700
         anonymous says_hi startup) =
     Response 200
       (ChatReply ''hello'' \<lparr>prompt_tokens = Some 3, completion_tokens = Some 1\<rparr> 1700)
   \<and> upstream_calls (snd (user_chat sample_config
         (sample_platform (Responded 200 (Some hello_completion))) 1700
         anonymous says_hi startup)) =
     [ChatCall \<lparr>payload_model = ''gpt-4o-mini'', payload_messages = [hi]\<rparr>]
   \<and> chat_logs (snd (user_chat sample_config
         (sample_platform (Responded 200 (Some hello_completion))) 1700
         anonymous says_hi startup)) =
     [\<lparr>log_id = 1, actor = ''ip:10.0.0.1'', scope = ''user'', messages = ''user:hi;'',
       reply = ''hello'', tokens_prompt = Some 3, tokens_completion = Some 1,
       created_at = 1700\<rparr>]
   \<and> logs (snd (mem_super_chat (sample_mem_platform (SdkReturned hello_completion)) 1700
         says_hi (mem_startup sample_config))) =
     [\<lparr>mem_created_at = 1700, mem_scope = ''super'', mem_actor = ''superadmin'',
       mem_messages = ''user:hi;'', mem_reply = ''hello''\<rparr>]"
proof -
  let ?pf = "sample_platform (Responded 200 (Some hello_completion))"
  let ?mpf = "sample_mem_platform (SdkReturned hello_completion)"
  have up: "chat_completions ?pf (chat_request sample_config (chat_settings startup)
      (messages_of says_hi)) = Responded 200 (Some hello_completion)"
    by (simp add: sample_platform_def)
  have good: "ok 200"
    by (simp add: ok_def)
  have sdk: "sdk_create ?mpf (mem_chat_request (current_settings (mem_startup sample_config))
      (messages_of says_hi)) = SdkReturned hello_completion"
    by (simp add: sample_mem_platform_def)
  note t = successful_chat_logged [OF up good sdk, where now = 1700 and req = anonymous]
  have vals: "reply_of (Some hello_completion) = ''hello''"
    "usage_of (Some hello_completion) = \<lparr>prompt_tokens = Some 3, completion_tokens = Some 1\<rparr>"
    "messages_of says_hi = [hi]"
    "chat_request sample_config (chat_settings startup) [hi] =
       \<lparr>payload_model = ''gpt-4o-mini'', payload_messages = [hi]\<rparr>"
    "mem_chat_request (current_settings (mem_startup sample_config)) [hi] =
       \<lparr>payload_model = ''gpt-4o-mini'', payload_messages = [hi]\<rparr>"
    "client_ip anonymous = ''10.0.0.1''"
    "sample_stringify [hi] = ''user:hi;''"
    by (simp_all add: reply_of_def first_content_def usage_of_def hello_completion_def
        messages_of_def says_hi_def chat_request_def finalMessages_def trim_def startup_def
        mem_chat_request_def mem_startup_def sample_config_def client_ip_def anonymous_def
        sample_stringify_def hi_def)
  have more: "stringify ?pf = sample_stringify" "mem_stringify ?mpf = sample_stringify"
    "chat_logs startup = []" "log_seq startup = 0" "upstream_calls startup = []"
    "logs (mem_startup sample_config) = []" "user_id says_hi = None" "admin_user says_hi = None"
    by (simp_all add: sample_platform_def sample_mem_platform_def startup_def mem_startup_def
        says_hi_def)
  show ?thesis
    using t by (simp add: vals more truthy_def or_null_def)
qed






subsection \<open>Properties of the log routes\<close>








lemma sql_limit_cap: "0 \<le> n \<Longrightarrow> length (sql_limit n rows) \<le> nat n"
  by (simp add: sql_limit_def)








lemma ids_increasing_same_logs:
  "chat_logs st' = chat_logs st \<Longrightarrow> log_seq st' = log_seq st \<Longrightarrow>
   ids_increasing st \<Longrightarrow> ids_increasing st'"
  by (simp add: ids_increasing_def)










end
